theory Spec2Isabelle
  imports Complex_Main
begin


section \<open>Redis retry strategy (redis configuration)\<close>

text \<open>
  JavaScript numbers that hold attempt counts and delays are modelled as \<open>int\<close>.
  The logger is an explicit list of emitted events, returned updated.
  \<^verbatim>\<open>
  const retryStrategy = (times) => {
      const delay = Math.min(times * 100, 2000)
      logger.warn(`Redis retry #${times}, delaying for ${delay}ms`)
      return delay
  }
  \<close>
\<close>

datatype log_event =
    RedisRetryWarn int int
  | LogInfo string
  | LogWarn string
  | LogError string

type_synonym logger = "log_event list"

definition retryStrategy :: "int \<Rightarrow> logger \<Rightarrow> int \<times> logger" where
  "retryStrategy attempt lg =
     (let delay = min (attempt * 100) 2000
      in (delay, lg @ [RedisRetryWarn attempt delay]))"


section \<open>Environment\<close>

text \<open>
  The fields of the validated environment that the NLP module reads, with the defaults of
  the schema (\<open>NLP_SENTIMENT_THRESHOLD: z.coerce.number().default(0.5)\<close>).
\<close>

record env =
  NLP_MODEL_PATH :: string
  NLP_LANGUAGE :: string
  NLP_SENTIMENT_THRESHOLD :: real

definition default_env :: env where
  "default_env =
     \<lparr>NLP_MODEL_PATH = ''./models/nlp-model.json'',
      NLP_LANGUAGE = ''en'',
      NLP_SENTIMENT_THRESHOLD = 0.5\<rparr>"


section \<open>Sentiment analysis\<close>

text \<open>
  \<open>sentimentAnalyzer.analyze\<close> belongs to the external package \<open>sentiment\<close>; it is a
  parameter of the model. Its result is the record below; \<open>analyzeSentiment\<close> copies the
  fields and adds the label.
  \<^verbatim>\<open>
  label: result.score > env.NLP_SENTIMENT_THRESHOLD ? 'positive'
       : result.score < -env.NLP_SENTIMENT_THRESHOLD ? 'negative' : 'neutral'
  \<close>
\<close>

record sentiment_result =
  score :: real
  comparative :: real
  tokens :: "string list"
  positive :: "string list"
  negative :: "string list"

record sentiment_analysis = sentiment_result +
  label :: string

definition analyzeSentiment :: "(string \<Rightarrow> sentiment_result) \<Rightarrow> env \<Rightarrow> string \<Rightarrow> sentiment_analysis" where
  "analyzeSentiment analyze e text =
     (let result = analyze text
      in \<lparr>score = score result,
          comparative = comparative result,
          tokens = tokens result,
          positive = positive result,
          negative = negative result,
          label = (if score result > NLP_SENTIMENT_THRESHOLD e then ''positive''
                   else if score result < - NLP_SENTIMENT_THRESHOLD e then ''negative''
                   else ''neutral'')\<rparr>)"


section \<open>Characters and strings\<close>

text \<open>
  A JavaScript string is a sequence of UTF-16 code units. The model covers the code units
  U+0000 to U+00FF: a \<open>char\<close> is the code unit with that number, and \<open>length\<close> counts
  code units as \<open>String.prototype.length\<close> does.
\<close>

definition code_unit :: "char \<Rightarrow> nat" where
  "code_unit c = of_char c"

text \<open>\<open>\d\<close>: the digits 0-9.\<close>

definition is_digit :: "char \<Rightarrow> bool" where
  "is_digit c \<longleftrightarrow> 48 \<le> code_unit c \<and> code_unit c \<le> 57"

text \<open>\<open>\w\<close> (no unicode flag): A-Z, a-z, 0-9 and the underscore.\<close>

definition is_word :: "char \<Rightarrow> bool" where
  "is_word c \<longleftrightarrow>
     (65 \<le> code_unit c \<and> code_unit c \<le> 90) \<or>
     (97 \<le> code_unit c \<and> code_unit c \<le> 122) \<or>
     is_digit c \<or> code_unit c = 95"

text \<open>
  \<open>\s\<close> and the characters \<open>trim\<close> removes (WhiteSpace and LineTerminator), below U+0100:
  TAB, LF, VT, FF, CR, SPACE and NO-BREAK SPACE.
\<close>

definition is_space :: "char \<Rightarrow> bool" where
  "is_space c \<longleftrightarrow> code_unit c \<in> {9, 10, 11, 12, 13, 32, 160}"

text \<open>
  \<open>String.prototype.toLowerCase\<close> on U+0000 to U+00FF: A-Z and the Latin-1 capitals
  U+00C0 to U+00DE (without the multiplication sign U+00D7) move up by 32.
\<close>

definition toLowerCase_char :: "char \<Rightarrow> char" where
  "toLowerCase_char c =
     (let n = code_unit c
      in if (65 \<le> n \<and> n \<le> 90) \<or> (192 \<le> n \<and> n \<le> 222 \<and> n \<noteq> 215)
         then char_of (n + 32) else c)"

definition toLowerCase :: "string \<Rightarrow> string" where
  "toLowerCase s = map toLowerCase_char s"

text \<open>\<open>String.prototype.trim\<close>.\<close>

definition trim :: "string \<Rightarrow> string" where
  "trim s = rev (dropWhile is_space (rev (dropWhile is_space s)))"


section \<open>Text normalizer\<close>

text \<open>
  \<open>replace(/\s+/g, ' ')\<close>: every maximal run of whitespace becomes one space.
\<close>

function collapse_whitespace :: "string \<Rightarrow> string" where
  "collapse_whitespace [] = []"
| "collapse_whitespace (c # cs) =
     (if is_space c then CHR '' '' # collapse_whitespace (dropWhile is_space cs)
      else c # collapse_whitespace cs)"
  by pat_completeness auto
termination
  by (relation "measure length") (auto simp: less_Suc_eq_le length_dropWhile_le)

text \<open>
  The characters kept by \<open>replace(/[^\w\s.,!?'-]/g, '')\<close>: the class is negated, so a
  character survives exactly when it is in \<open>[\w\s.,!?'-]\<close>.
\<close>

definition allowed_char :: "char \<Rightarrow> bool" where
  "allowed_char c \<longleftrightarrow> is_word c \<or> is_space c \<or> c \<in> set ''.,!?'-''"

definition strip_special :: "string \<Rightarrow> string" where
  "strip_special s = filter allowed_char s"

text \<open>
  \<^verbatim>\<open>
  const preprocessText = (text) => {
      let processed = text.toLowerCase()
      processed = processed.replace(/\s+/g, ' ').trim()
      processed = processed.replace(/[^\w\s.,!?'-]/g, '')
      return processed
  }
  \<close>
\<close>

definition preprocessText :: "string \<Rightarrow> string" where
  "preprocessText text =
     (let processed = toLowerCase text;
          processed = trim (collapse_whitespace processed);
          processed = strip_special processed
      in processed)"


section \<open>Regular expressions\<close>

text \<open>
  The patterns of the entity table are written in the following fragment of the
  ECMAScript pattern language: character classes and single characters (\<open>Atom\<close>, the union
  of its items), the assertion \<open>\b\<close>, sequence, alternation and greedy quantifiers
  \<open>{min,max}\<close> (\<open>+\<close> is \<open>{1,}\<close>, \<open>?\<close> is \<open>{0,1}\<close>). None of the patterns has a capture
  group: \<open>(?: )\<close> only groups.
\<close>

datatype class_item =
    Single char
  | Range char char
  | DigitClass
  | SpaceClass

datatype regex =
    Atom "class_item list"
  | WordBoundary
  | Seq regex regex
  | Alt regex regex
  | Repeat regex nat "nat option"

text \<open>
  \<open>Canonicalize\<close> for the flag \<open>i\<close> without the flag \<open>u\<close>: the code unit of the upper
  case form. Below U+0100 the letters a-z and U+00E0 to U+00FE (without the division sign
  U+00F7) move down by 32, the letters U+00FF and U+00B5 have their upper case forms
  U+0178 and U+039C, and every other code unit is unchanged.
\<close>

definition canonicalize :: "char \<Rightarrow> nat" where
  "canonicalize c =
     (let n = code_unit c
      in if (97 \<le> n \<and> n \<le> 122) \<or> (224 \<le> n \<and> n \<le> 254 \<and> n \<noteq> 247) then n - 32
         else if n = 255 then 376
         else if n = 181 then 924
         else n)"

definition chars_between :: "char \<Rightarrow> char \<Rightarrow> char list" where
  "chars_between lo hi = map char_of [code_unit lo ..< Suc (code_unit hi)]"

text \<open>
  Membership of a character in a class item. With the flag \<open>i\<close> a character belongs to
  a class when its canonical form is the canonical form of a member; digits and whitespace
  are their own canonical forms, and no other character below U+0100 is mapped onto them.
\<close>

fun class_member :: "bool \<Rightarrow> class_item \<Rightarrow> char \<Rightarrow> bool" where
  "class_member ic (Single a) c = (if ic then canonicalize a = canonicalize c else a = c)"
| "class_member ic (Range lo hi) c =
     (if ic then list_ex (\<lambda>a. canonicalize a = canonicalize c) (chars_between lo hi)
      else code_unit lo \<le> code_unit c \<and> code_unit c \<le> code_unit hi)"
| "class_member ic DigitClass c = is_digit c"
| "class_member ic SpaceClass c = is_space c"

text \<open>
  \<open>IsWordChar(e)\<close>: false before the first and after the last character, otherwise
  whether the character at \<open>e\<close> is a word character.
\<close>

definition is_word_at :: "string \<Rightarrow> int \<Rightarrow> bool" where
  "is_word_at s e = (if e < 0 \<or> int (length s) \<le> e then False else is_word (s ! nat e))"

text \<open>
  The backtracking matcher. \<open>rmatch ic r s i\<close> lists the end positions of all the ways in
  which \<open>r\<close> matches \<open>s\<close> from position \<open>i\<close>, in the order in which backtracking tries
  them; the head of the list is the match that the engine reports. The equation for
  \<open>Repeat\<close> is \<open>RepeatMatcher\<close>: no more iterations when \<open>max\<close> is zero; an iteration that
  matches the empty string is rejected once \<open>min\<close> is zero; a greedy quantifier tries one
  more iteration before it tries to stop.
\<close>

function rmatch :: "bool \<Rightarrow> regex \<Rightarrow> string \<Rightarrow> nat \<Rightarrow> nat list" where
  "rmatch ic (Atom items) s i =
     (if i < length s \<and> list_ex (\<lambda>it. class_member ic it (s ! i)) items then [Suc i] else [])"
| "rmatch ic WordBoundary s i =
     (if is_word_at s (int i - 1) \<noteq> is_word_at s (int i) then [i] else [])"
| "rmatch ic (Seq r1 r2) s i = concat (map (rmatch ic r2 s) (rmatch ic r1 s i))"
| "rmatch ic (Alt r1 r2) s i = rmatch ic r1 s i @ rmatch ic r2 s i"
| "rmatch ic (Repeat r mn mx) s i =
     (if mx = Some 0 then [i]
      else let iter = concat (map
                 (\<lambda>j. if mn = 0 \<and> j = i then []
                      else rmatch ic (Repeat r (mn - 1) (map_option (\<lambda>k. k - 1) mx)) s j)
                 (rmatch ic r s i))
           in if mn \<noteq> 0 then iter else iter @ [i])"
  by pat_completeness auto

text \<open>
  Termination: a call on a subpattern has a smaller pattern; an iteration of a quantifier
  has the same pattern and a smaller bound, or, once the bound is used up, starts
  further to the right, because the end of a match is never before its start.
\<close>

primrec regex_size :: "regex \<Rightarrow> nat" where
  "regex_size (Atom items) = 0"
| "regex_size WordBoundary = 0"
| "regex_size (Seq r1 r2) = Suc (regex_size r1 + regex_size r2)"
| "regex_size (Alt r1 r2) = Suc (regex_size r1 + regex_size r2)"
| "regex_size (Repeat r mn mx) = Suc (regex_size r)"

primrec repeat_budget :: "regex \<Rightarrow> nat" where
  "repeat_budget (Atom items) = 0"
| "repeat_budget WordBoundary = 0"
| "repeat_budget (Seq r1 r2) = 0"
| "repeat_budget (Alt r1 r2) = 0"
| "repeat_budget (Repeat r mn mx) = (case mx of None \<Rightarrow> mn | Some k \<Rightarrow> k)"

lemma rmatch_dom_bounds:
  "rmatch_dom (ic, r, s, i) \<Longrightarrow> j \<in> set (rmatch ic r s i) \<Longrightarrow> i \<le> j \<and> j \<le> max i (length s)"
proof (induction ic r s i arbitrary: j rule: rmatch.pinduct)
  case (1 ic items s i)
  then show ?case by (auto simp: rmatch.psimps split: if_splits)
next
  case (2 ic s i)
  then show ?case by (auto simp: rmatch.psimps split: if_splits)
next
  case (3 ic r1 r2 s i)
  from 3(1,4) obtain k where k: "k \<in> set (rmatch ic r1 s i)" "j \<in> set (rmatch ic r2 s k)"
    by (auto simp: rmatch.psimps)
  from 3(2) [OF k(1)] 3(3) [OF k(1) k(2)] show ?case by auto
next
  case (4 ic r1 r2 s i)
  then show ?case by (auto simp: rmatch.psimps)
next
  case (5 ic r mn mx s i)
  show ?case
  proof (cases "mx = Some 0")
    case True
    with 5(1,4) show ?thesis by (simp add: rmatch.psimps)
  next
    case False
    show ?thesis
    proof (cases "j = i")
      case True
      then show ?thesis by simp
    next
      case ne: False
      with False 5(1,4) obtain k where k: "k \<in> set (rmatch ic r s i)" "\<not> (mn = 0 \<and> k = i)"
        "j \<in> set (rmatch ic (Repeat r (mn - 1) (map_option (\<lambda>k. k - 1) mx)) s k)"
        by (auto simp: rmatch.psimps Let_def split: if_splits)
      from 5(2) [OF False k(1)] 5(3) [OF False k(1) k(2) k(3)] show ?thesis by auto
    qed
  qed
qed

termination rmatch
proof (relation "measures [\<lambda>(ic, r, s, i). regex_size r, \<lambda>(ic, r, s, i). repeat_budget r,
    \<lambda>(ic, r, s, i). length s - i]", goal_cases)
  case 1
  then show ?case by simp
next
  case (2 ic r1 r2 s i)
  then show ?case by simp
next
  case (3 ic r1 r2 s i x)
  then show ?case by simp
next
  case (4 ic r1 r2 s i)
  then show ?case by simp
next
  case (5 ic r1 r2 s i)
  then show ?case by simp
next
  case (6 ic r mn mx s i)
  then show ?case by simp
next
  case (7 ic r mn mx s i x)
  from rmatch_dom_bounds [OF 7(4) 7(2)] have b: "i \<le> x" "x \<le> max i (length s)" by auto
  show ?case
  proof (cases mx)
    case None
    show ?thesis
    proof (cases "mn = 0")
      case True
      with 7(3) b have "i < x" "x \<le> length s" by auto
      with True None show ?thesis by simp
    next
      case False
      with None show ?thesis by simp
    qed
  next
    case (Some k)
    with 7(1) show ?thesis by simp
  qed
qed

declare rmatch.simps [simp del]

lemma rmatch_bounds:
  "j \<in> set (rmatch ic r s i) \<Longrightarrow> i \<le> j \<and> j \<le> max i (length s)"
proof (induction ic r s i arbitrary: j rule: rmatch.induct)
  case (1 ic items s i)
  then show ?case by (auto simp: rmatch.simps split: if_splits)
next
  case (2 ic s i)
  then show ?case by (auto simp: rmatch.simps split: if_splits)
next
  case (3 ic r1 r2 s i)
  from 3(3) obtain k where k: "k \<in> set (rmatch ic r1 s i)" "j \<in> set (rmatch ic r2 s k)"
    by (auto simp: rmatch.simps)
  from 3(1) [OF k(1)] 3(2) [OF k(1) k(2)] show ?case by auto
next
  case (4 ic r1 r2 s i)
  then show ?case by (auto simp: rmatch.simps)
next
  case (5 ic r mn mx s i)
  show ?case
  proof (cases "mx = Some 0")
    case True
    from 5(3) show ?thesis by (subst (asm) rmatch.simps) (simp add: True)
  next
    case False
    show ?thesis
    proof (cases "j = i")
      case True
      then show ?thesis by simp
    next
      case ne: False
      from 5(3) have "j \<in> set (concat (map
                 (\<lambda>j. if mn = 0 \<and> j = i then []
                      else rmatch ic (Repeat r (mn - 1) (map_option (\<lambda>k. k - 1) mx)) s j)
                 (rmatch ic r s i)))"
        using False ne by (subst (asm) rmatch.simps) (auto simp: Let_def split: if_splits)
      then obtain k where k: "k \<in> set (rmatch ic r s i)" "\<not> (mn = 0 \<and> k = i)"
        "j \<in> set (rmatch ic (Repeat r (mn - 1) (map_option (\<lambda>k. k - 1) mx)) s k)"
        by (auto split: if_splits)
      from 5(1) [OF False k(1)] 5(2) [OF False k(1) k(2) k(3)] show ?thesis by auto
    qed
  qed
qed

text \<open>
  \<open>RegExpBuiltinExec\<close> for a regular expression with the flag \<open>g\<close> (every pattern of the
  entity table has it; none is sticky): the search starts at \<open>lastIndex\<close> and moves right
  until the matcher succeeds; past the end of the string it fails.
\<close>

function search :: "bool \<Rightarrow> regex \<Rightarrow> string \<Rightarrow> nat \<Rightarrow> (nat \<times> nat) option" where
  "search ic r s lastIndex =
     (if lastIndex > length s then None
      else case rmatch ic r s lastIndex of
             [] \<Rightarrow> search ic r s (Suc lastIndex)
           | e # _ \<Rightarrow> Some (lastIndex, e))"
  by pat_completeness auto
termination
  by (relation "measure (\<lambda>(ic, r, s, lastIndex). Suc (length s) - lastIndex)") auto

declare search.simps [simp del]

text \<open>
  A regular expression object: its pattern, the flag \<open>i\<close> and the mutable \<open>lastIndex\<close>.
\<close>

record regexp =
  source :: regex
  ignoreCase :: bool
  lastIndex :: nat

text \<open>
  \<open>String.prototype.substring\<close> for indices that are not negative.
\<close>

definition substring :: "string \<Rightarrow> nat \<Rightarrow> nat \<Rightarrow> string" where
  "substring s indexStart indexEnd =
     (let a = min indexStart (length s);
          b = min indexEnd (length s)
      in take (max a b - min a b) (drop (min a b) s))"

text \<open>
  A failed \<open>exec\<close> sets \<open>lastIndex\<close> to 0, a successful one to the end of the match.
\<close>

definition regexp_exec :: "regexp \<Rightarrow> string \<Rightarrow> (nat \<times> nat) option \<times> regexp" where
  "regexp_exec R S =
     (case search (ignoreCase R) (source R) S (lastIndex R) of
        None \<Rightarrow> (None, R\<lparr>lastIndex := 0\<rparr>)
      | Some (i, e) \<Rightarrow> (Some (i, e), R\<lparr>lastIndex := e\<rparr>))"

lemma search_bounds:
  "search ic r s li = Some (i, e) \<Longrightarrow> li \<le> i \<and> i \<le> e \<and> e \<le> length s"
proof (induction ic r s li rule: search.induct)
  case (1 ic r s lastIndex)
  show ?case
  proof (cases "lastIndex > length s")
    case True
    with 1(2) show ?thesis by (simp add: search.simps)
  next
    case False
    show ?thesis
    proof (cases "rmatch ic r s lastIndex")
      case Nil
      with False 1(2) have "search ic r s (Suc lastIndex) = Some (i, e)"
        by (subst (asm) search.simps) simp
      from 1(1) [OF False Nil this] show ?thesis by simp
    next
      case (Cons a as)
      with False 1(2) have "i = lastIndex" "e = a"
        by (subst (asm) search.simps, simp)+
      moreover have "a \<in> set (rmatch ic r s lastIndex)" using Cons by simp
      ultimately show ?thesis using rmatch_bounds [of a ic r s lastIndex] False by auto
    qed
  qed
qed

text \<open>
  \<open>RegExp.prototype[Symbol.match]\<close> for a global regular expression, which is what
  \<open>text.match(regex)\<close> calls: \<open>lastIndex\<close> is set to 0, then \<open>exec\<close> is repeated until it
  fails and the matched strings are collected; after an empty match \<open>lastIndex\<close> is
  advanced by one. The result is \<open>null\<close> when nothing matched.
\<close>

function match_loop :: "regexp \<Rightarrow> string \<Rightarrow> string list \<times> regexp" where
  "match_loop rx S =
     (case regexp_exec rx S of
        (None, rx') \<Rightarrow> ([], rx')
      | (Some (i, e), rx') \<Rightarrow>
          (let matchStr = substring S i e;
               rx'' = (if matchStr = [] then rx'\<lparr>lastIndex := lastIndex rx' + 1\<rparr> else rx');
               (A, rx''') = match_loop rx'' S
           in (matchStr # A, rx''')))"
  by pat_completeness auto
termination
proof (relation "measure (\<lambda>(rx, S). Suc (length S) - lastIndex rx)", goal_cases)
  case 1
  then show ?case by simp
next
  case (2 rx S x1 x2 x2a x1a x2b xa xb)
  then have s: "search (ignoreCase rx) (source rx) S (lastIndex rx) = Some (x1a, x2b)"
    and x2: "x2 = rx\<lparr>lastIndex := x2b\<rparr>"
    by (auto simp: regexp_exec_def split: option.splits)
  from search_bounds [OF s] have b: "lastIndex rx \<le> x1a" "x1a \<le> x2b" "x2b \<le> length S" by auto
  have "substring S x1a x2b = [] \<longleftrightarrow> x2b = x1a"
    using b by (auto simp: substring_def Let_def min_def max_def)
  with 2 x2 b show ?case by auto
qed

declare match_loop.simps [simp del]

definition string_match :: "string \<Rightarrow> regexp \<Rightarrow> string list option \<times> regexp" where
  "string_match S rx =
     (let (A, rx') = match_loop (rx\<lparr>lastIndex := 0\<rparr>) S
      in (if A = [] then None else Some A, rx'))"

text \<open>
  \<open>String.prototype.indexOf\<close>: the first position at which the search string occurs,
  or -1.
\<close>

definition indexOf :: "string \<Rightarrow> string \<Rightarrow> int" where
  "indexOf s searchString =
     (case find (\<lambda>k. take (length searchString) (drop k s) = searchString)
             [0 ..< Suc (length s - length searchString)] of
        None \<Rightarrow> - 1
      | Some k \<Rightarrow> int k)"


section \<open>Entity extraction\<close>

record entity =
  ent_type :: string
  ent_value :: string
  ent_start :: int
  ent_end :: int

record entity_config =
  regex :: regexp
  examples :: "string list"

type_synonym entity_table = "(string \<times> entity_config) list"

abbreviation Chr :: "char \<Rightarrow> regex" where
  "Chr c \<equiv> Atom [Single c]"

abbreviation Digit :: regex where
  "Digit \<equiv> Atom [DigitClass]"

abbreviation Space :: regex where
  "Space \<equiv> Atom [SpaceClass]"

abbreviation Plus :: "regex \<Rightarrow> regex" where
  "Plus r \<equiv> Repeat r 1 None"

abbreviation Opt :: "regex \<Rightarrow> regex" where
  "Opt r \<equiv> Repeat r 0 (Some 1)"

abbreviation Exactly :: "nat \<Rightarrow> regex \<Rightarrow> regex" where
  "Exactly n r \<equiv> Repeat r n (Some n)"

fun seq :: "regex list \<Rightarrow> regex" where
  "seq [] = Repeat (Atom []) 0 (Some 0)"
| "seq [r] = r"
| "seq (r # rs) = Seq r (seq rs)"

text \<open>
  The patterns of \<open>entityTypes\<close>:
  \<^verbatim>\<open>
  person: /\b[A-Z][a-z]+\s+[A-Z][a-z]+\b/g
  date:   /\b\d{1,2}\/\d{1,2}\/\d{4}\b|\b\d{4}-\d{2}-\d{2}\b/g
  time:   /\b\d{1,2}:\d{2}(?:\s?[AP]M)?\b/gi
  email:  /\b[A-Za-z0-9._%+-]+@[A-Za-z0-9.-]+\.[A-Z|a-z]{2,}\b/g
  phone:  /\b\d{3}-\d{3}-\d{4}\b|\b\(\d{3}\)\s?\d{3}-\d{4}\b/g
  number: /\b\d+(?:\.\d+)?\b/g
  \<close>
\<close>

definition person_regex :: regex where
  "person_regex =
     seq [WordBoundary, Atom [Range CHR ''A'' CHR ''Z''], Plus (Atom [Range CHR ''a'' CHR ''z'']),
          Plus Space, Atom [Range CHR ''A'' CHR ''Z''], Plus (Atom [Range CHR ''a'' CHR ''z'']),
          WordBoundary]"

definition date_regex :: regex where
  "date_regex =
     Alt (seq [WordBoundary, Repeat Digit 1 (Some 2), Chr CHR ''/'', Repeat Digit 1 (Some 2),
               Chr CHR ''/'', Exactly 4 Digit, WordBoundary])
         (seq [WordBoundary, Exactly 4 Digit, Chr CHR ''-'', Exactly 2 Digit, Chr CHR ''-'',
               Exactly 2 Digit, WordBoundary])"

definition time_regex :: regex where
  "time_regex =
     seq [WordBoundary, Repeat Digit 1 (Some 2), Chr CHR '':'', Exactly 2 Digit,
          Opt (seq [Opt Space, Atom [Single CHR ''A'', Single CHR ''P''], Chr CHR ''M'']),
          WordBoundary]"

definition email_regex :: regex where
  "email_regex =
     seq [WordBoundary,
          Plus (Atom [Range CHR ''A'' CHR ''Z'', Range CHR ''a'' CHR ''z'', Range CHR ''0'' CHR ''9'',
                      Single CHR ''.'', Single CHR ''_'', Single CHR ''%'', Single CHR ''+'',
                      Single CHR ''-'']),
          Chr CHR ''@'',
          Plus (Atom [Range CHR ''A'' CHR ''Z'', Range CHR ''a'' CHR ''z'', Range CHR ''0'' CHR ''9'',
                      Single CHR ''.'', Single CHR ''-'']),
          Chr CHR ''.'',
          Repeat (Atom [Range CHR ''A'' CHR ''Z'', Single CHR ''|'', Range CHR ''a'' CHR ''z'']) 2 None,
          WordBoundary]"

definition phone_regex :: regex where
  "phone_regex =
     Alt (seq [WordBoundary, Exactly 3 Digit, Chr CHR ''-'', Exactly 3 Digit, Chr CHR ''-'',
               Exactly 4 Digit, WordBoundary])
         (seq [WordBoundary, Chr CHR ''('', Exactly 3 Digit, Chr CHR '')'', Opt Space,
               Exactly 3 Digit, Chr CHR ''-'', Exactly 4 Digit, WordBoundary])"

definition number_regex :: regex where
  "number_regex =
     seq [WordBoundary, Plus Digit, Opt (seq [Chr CHR ''.'', Plus Digit]), WordBoundary]"

text \<open>
  The table in its declaration order, which is the order of \<open>Object.entries\<close>.
\<close>

definition entityTypes :: entity_table where
  "entityTypes =
     [(''person'', \<lparr>regex = \<lparr>source = person_regex, ignoreCase = False, lastIndex = 0\<rparr>,
                    examples = [''John Doe'', ''Jane Smith'']\<rparr>),
      (''date'', \<lparr>regex = \<lparr>source = date_regex, ignoreCase = False, lastIndex = 0\<rparr>,
                  examples = [''12/25/2023'', ''2023-12-25'', ''December 25, 2023'']\<rparr>),
      (''time'', \<lparr>regex = \<lparr>source = time_regex, ignoreCase = True, lastIndex = 0\<rparr>,
                  examples = [''2:30 PM'', ''14:30'', ''2:30pm'']\<rparr>),
      (''email'', \<lparr>regex = \<lparr>source = email_regex, ignoreCase = False, lastIndex = 0\<rparr>,
                   examples = [''user@example.com'', ''john.doe@company.org'']\<rparr>),
      (''phone'', \<lparr>regex = \<lparr>source = phone_regex, ignoreCase = False, lastIndex = 0\<rparr>,
                   examples = [''123-456-7890'', ''(123) 456-7890'']\<rparr>),
      (''number'', \<lparr>regex = \<lparr>source = number_regex, ignoreCase = False, lastIndex = 0\<rparr>,
                    examples = [''123'', ''45.67'', ''1000'']\<rparr>)]"

text \<open>
  \<^verbatim>\<open>
  const extractentities = (text) => {
      const entities = []
      for (const [entityType, entityConfig] of Object.entries(entityTypes)) {
          const matches = text.match(entityConfig.regex);
          if (matches) {
              for (const match of matches) {
                  entities.push({
                      type: entityType,
                      value: match,
                      start: text.indexOf(match),
                      end: text.indexOf(match) + match.length
                  })
              }
          }
      }
      return entities
  }
  \<close>
  The table is shared mutable state (the \<open>lastIndex\<close> fields of its regular expressions):
  the model takes the table and returns it updated, next to the entity list.
\<close>

fun extract_from :: "entity_table \<Rightarrow> string \<Rightarrow> entity list \<Rightarrow> entity list \<times> entity_table" where
  "extract_from [] text entities = (entities, [])"
| "extract_from ((entityType, entityConfig) # rest) text entities =
     (let (matches, rx) = string_match text (regex entityConfig);
          entities = (case matches of
                        None \<Rightarrow> entities
                      | Some ms \<Rightarrow>
                          entities @ map (\<lambda>m. \<lparr>ent_type = entityType, ent_value = m,
                                               ent_start = indexOf text m,
                                               ent_end = indexOf text m + int (length m)\<rparr>) ms);
          (result, rest') = extract_from rest text entities
      in (result, (entityType, entityConfig\<lparr>regex := rx\<rparr>) # rest'))"

definition extractentities :: "entity_table \<Rightarrow> string \<Rightarrow> entity list \<times> entity_table" where
  "extractentities table text = extract_from table text []"

text \<open>
  The table with other values in the \<open>lastIndex\<close> fields: the states in which a run can
  find the shared table.
\<close>

definition with_lastIndex :: "(string \<Rightarrow> nat) \<Rightarrow> entity_table \<Rightarrow> entity_table" where
  "with_lastIndex f table =
     map (\<lambda>(entityType, entityConfig).
            (entityType, entityConfig\<lparr>regex := (regex entityConfig)\<lparr>lastIndex := f entityType\<rparr>\<rparr>))
         table"


section \<open>Classifier initialization\<close>

text \<open>
  The built-in intents (\<open>intentCategories\<close>), in declaration order.
\<close>

record intent_category =
  patterns :: "string list"
  entity_names :: "string list"
  responses :: "string list"

definition intentCategories :: "(string \<times> intent_category) list" where
  "intentCategories =
     [(''greeting'',
       \<lparr>patterns = [''hello'', ''hi'', ''hey'', ''good morning'', ''good afternoon'',
                     ''good evening'', ''greetings'', ''howdy'', ''what's up'', ''how are you''],
        entity_names = [],
        responses = [''Hello! How can I help you today?'',
                      ''Hi there! What can I do for you?'',
                      ''Greetings! How may I assist you?'',
                      ''Hello! I'm here to help. What do you need?'']\<rparr>),
      (''goodbye'',
       \<lparr>patterns = [''bye'', ''goodbye'', ''see you'', ''farewell'', ''take care'',
                     ''have a good day'', ''catch you later'', ''until next time'', ''so long'',
                     ''adios''],
        entity_names = [],
        responses = [''Goodbye! Have a great day!'',
                      ''See you later! Take care!'',
                      ''Farewell! Feel free to come back anytime.'',
                      ''Bye! It was nice talking with you.'']\<rparr>),
      (''help'',
       \<lparr>patterns = [''help'', ''can you help'', ''I need help'', ''assist me'', ''support'',
                     ''what can you do'', ''how does this work'', ''instructions''],
        entity_names = [],
        responses = [''I'm here to help! You can ask me any question and I'll do my best to assist you.'',
                      ''I can help you with various tasks. What specific help do you need?'',
                      ''Sure! I'm designed to assist you. What would you like help with?'']\<rparr>),
      (''question'',
       \<lparr>patterns = [''what is'', ''who is'', ''where is'', ''when is'', ''why is'', ''how is'',
                     ''what are'', ''who are'', ''where are'', ''when are'', ''why are'', ''how are'',
                     ''tell me about'', ''explain'', ''describe''],
        entity_names = [''topic'', ''subject''],
        responses = [''Let me help you with that question.'',
                      ''I'll do my best to answer your question.'',
                      ''That's a great question. Let me think about it.'']\<rparr>),
      (''compliment'',
       \<lparr>patterns = [''thank you'', ''thanks'', ''great job'', ''well done'', ''awesome'',
                     ''you're helpful'', ''good work'', ''excellent'', ''amazing''],
        entity_names = [],
        responses = [''You're welcome! I'm glad I could be of help.'',
                      ''Thank you! I appreciate your kind words.'',
                      ''I'm happy to be of assistance!'']\<rparr>),
      (''complaint'',
       \<lparr>patterns = [''this is wrong'', ''you're not helpful'', ''this doesn't work'',
                     ''I'm frustrated'', ''this is bad'', ''terrible'', ''awful''],
        entity_names = [],
        responses = [''I apologize for any inconvenience. Let me try to help you better.'',
                      ''I'm sorry this isn't working as expected. How can I improve?'',
                      ''I understand your frustration. Let me see what I can do to help.'']\<rparr>)]"

text \<open>
  The part of \<open>NlpManager\<close> (package \<open>node-nlp\<close>) that initialization uses: the manager
  records the documents, answers and named entities it is given, in call order, and
  whether it has been trained. Its methods are taken not to throw, except \<open>train\<close> and
  \<open>save\<close>, whose outcome is given from outside.
\<close>

record training_entity =
  entity_name :: string
  entity_option :: string
  entity_languages :: "string list"
  entity_texts :: "string list"

record nlp_manager =
  documents :: "(string \<times> string \<times> string) list"
  answers :: "(string \<times> string \<times> string) list"
  named_entity_texts :: "training_entity list"
  trained :: bool

definition createNlpManager :: nlp_manager where
  "createNlpManager = \<lparr>documents = [], answers = [], named_entity_texts = [], trained = False\<rparr>"

definition addDocument :: "string \<Rightarrow> string \<Rightarrow> string \<Rightarrow> nlp_manager \<Rightarrow> nlp_manager" where
  "addDocument locale utterance intent manager =
     manager\<lparr>documents := documents manager @ [(locale, utterance, intent)]\<rparr>"

definition addAnswer :: "string \<Rightarrow> string \<Rightarrow> string \<Rightarrow> nlp_manager \<Rightarrow> nlp_manager" where
  "addAnswer locale intent answer manager =
     manager\<lparr>answers := answers manager @ [(locale, intent, answer)]\<rparr>"

definition addNamedEntityText :: "training_entity \<Rightarrow> nlp_manager \<Rightarrow> nlp_manager" where
  "addNamedEntityText entity manager =
     manager\<lparr>named_entity_texts := named_entity_texts manager @ [entity]\<rparr>"

text \<open>
  Errors are values. A \<open>ReferenceError\<close> is what the evaluation of an identifier without a
  binding throws, a \<open>TypeError\<close> what iterating a value that is not iterable or reading a
  property of \<open>null\<close> throws; \<open>Error\<close> stands for every other error (a file that cannot be
  read, JSON that cannot be parsed, a failure inside the manager).
\<close>

datatype js_error = Error string | TypeError string | ReferenceError string

text \<open>
  The module binds \<open>NlpManager\<close>, \<open>natural\<close>, \<open>sentiment\<close>, \<open>compromise\<close>, \<open>fs\<close>, \<open>logger\<close>,
  \<open>env\<close> and \<open>isDevelopment\<close> with \<open>require\<close>:
  \<^verbatim>\<open>
  const { NlpManager } = require("node-nlp");
  const natural = require("natural");
  const sentiment = require("sentiment");
  const compromise = require("compromise");
  const fs = require('fs/promises');
  const logger = require("../utils/logger");
  const { env, isDevelopment } = require("./envConfig");
  \<close>
  Nothing binds the identifier \<open>path\<close>, and Node has no global of that name. So the
  evaluation of \<open>path.resolve(p)\<close> throws a \<open>ReferenceError\<close> before \<open>resolve\<close> is looked up,
  whatever \<open>p\<close> is.
\<close>

definition path_resolve :: "string \<Rightarrow> js_error + string" where
  "path_resolve p = Inl (ReferenceError ''path is not defined'')"

text \<open>
  The training files as parsed JSON. A parsed value that \<open>for ... of\<close> cannot iterate is
  \<open>NotIterable\<close>; otherwise it is the list of its elements, where an element on which the
  first property read throws (\<open>null\<close>) is \<open>Inl\<close>. For an intent, \<open>intent_responses\<close> is
  what iterating \<open>intent.responses || []\<close> gives: the responses, none when the property
  is absent, or the error when its value is not iterable. The utterances file answers
  \<open>utterances[intent.name] || []\<close> in the same way.
\<close>

record training_intent =
  intent_name :: string
  intent_responses :: "js_error + string list"

datatype 'a parsed =
    NotIterable js_error
  | Elements "(js_error + 'a) list"

text \<open>
  What the outside world answers during initialization: the three files (\<open>Inl\<close> when the
  promise of \<open>readFile\<close> and \<open>JSON.parse\<close> is rejected), and whether \<open>manager.train()\<close> and
  \<open>manager.save()\<close> throw.
\<close>

record init_io =
  readIntents :: "js_error + training_intent parsed"
  readUtterances :: "js_error + (string \<Rightarrow> js_error + string list)"
  readEntities :: "js_error + training_entity parsed"
  trainResult :: "js_error option"
  saveResult :: "js_error option"

text \<open>
  \<^verbatim>\<open>
  const InitializeNlpManager = async () => {
      const manager = createNlpManager()

      try {
          // Load training data if it exists
          const intentsPath = path.resolve('../training/intents.json')
          const utterancesPath = path.resolve('../training/utterances.json')
          const entitiesPath = path.resolve('../training/entities.json')
          const modelPath = path.resolve(env.NLP_MODEL_PATH)

          let intents = [], utterances = {}, entities = []

          try {
              [intents, utterances, entities] = await Promise.all([
                  fs.readFile(intentsPath, 'utf8').then(JSON.parse),
                  fs.readFile(utterancesPath, 'utf8').then(JSON.parse),
                  fs.readFile(entitiesPath, 'utf8').then(JSON.parse).catch(() => [])
              ])

              // Add intents and entities from training data
              for (const intent of intents) {
                  const intentUtterances = utterances[intent.name] || []

                  for (const utterance of intentUtterances) {
                      manager.addDocument(env.NLP_LANGUAGE, utterance, intent.name)
                  }

                  for (const response of intent.responses || []) {
                      manager.addAnswer(env.NLP_LANGUAGE, intent.name, response)
                  }
              }

              for (const entity of entities) {
                  manager.addNamedEntityText(
                      entity.name, entity.option, entity.languages, entity.texts)
              }

              logger.info('Loaded training data from individual files')
          } catch (error) {
              logger.warn('Training files not found or invalid. Using default intents')

              // Default intents
              for (const [intentName, intentData] of Object.entries(intentCategories)) {
                  for (const pattern of intentData.patterns) {
                      manager.addDocument(env.NLP_LANGUAGE, pattern, intentName)
                  }

                  for (const response of intentData.responses) {
                      manager.addAnswer(env.NLP_LANGUAGE, intentName, response)
                  }
              }
          }

          // Train the model
          await manager.train()

          // Save the trained model
          try {
              await manager.save(modelPath)
              logger.info('NLP model trained and saved successfully')
          } catch (error) {
              logger.error('Failed to save NLP model:', error.message)
          }

          return manager
      } catch (error) {
          logger.error('Failed to initialize NLP manager:', error.message)
          throw error
      }
  }
  \<close>
  A loop over a list whose body can throw: it stops at the first throw and keeps what the
  manager has been given until then.
\<close>

fun try_each :: "('a \<Rightarrow> 's \<Rightarrow> js_error option \<times> 's) \<Rightarrow> 'a list \<Rightarrow> 's \<Rightarrow> js_error option \<times> 's" where
  "try_each body [] s = (None, s)"
| "try_each body (x # xs) s =
     (case body x s of
        (Some error, s') \<Rightarrow> (Some error, s')
      | (None, s') \<Rightarrow> try_each body xs s')"

text \<open>The body of the loop over the intents of the training data.\<close>

definition add_training_intent ::
  "env \<Rightarrow> (string \<Rightarrow> js_error + string list) \<Rightarrow> js_error + training_intent \<Rightarrow> nlp_manager
     \<Rightarrow> js_error option \<times> nlp_manager" where
  "add_training_intent e utterances element manager =
     (case element of
        Inl error \<Rightarrow> (Some error, manager)
      | Inr intent \<Rightarrow>
          (case utterances (intent_name intent) of
             Inl error \<Rightarrow> (Some error, manager)
           | Inr intentUtterances \<Rightarrow>
               (let manager =
                      fold (\<lambda>utterance. addDocument (NLP_LANGUAGE e) utterance (intent_name intent))
                        intentUtterances manager
                in case intent_responses intent of
                     Inl error \<Rightarrow> (Some error, manager)
                   | Inr rs \<Rightarrow>
                       (None,
                        fold (\<lambda>response. addAnswer (NLP_LANGUAGE e) (intent_name intent) response)
                          rs manager))))"

text \<open>The body of the loop over the entities of the training data.\<close>

definition add_training_entity ::
  "js_error + training_entity \<Rightarrow> nlp_manager \<Rightarrow> js_error option \<times> nlp_manager" where
  "add_training_entity element manager =
     (case element of
        Inl error \<Rightarrow> (Some error, manager)
      | Inr entity \<Rightarrow> (None, addNamedEntityText entity manager))"

text \<open>The body of the loop over the built-in intents.\<close>

definition add_default_intent :: "env \<Rightarrow> string \<times> intent_category \<Rightarrow> nlp_manager \<Rightarrow> nlp_manager" where
  "add_default_intent e entry manager =
     (case entry of (intentName, intentData) \<Rightarrow>
        (let manager = fold (\<lambda>pattern. addDocument (NLP_LANGUAGE e) pattern intentName)
                         (patterns intentData) manager;
             manager = fold (\<lambda>response. addAnswer (NLP_LANGUAGE e) intentName response)
                         (responses intentData) manager
         in manager))"

text \<open>
  The inner \<open>try\<close> with its \<open>catch\<close>. \<open>Promise.all\<close> rejects when the intents or the
  utterances file is rejected; a rejected entities file counts as the empty list. A throw
  inside the block leaves in the manager what the block has added, and the \<open>catch\<close> adds
  the built-in intents to it.
\<close>

definition load_training_data :: "env \<Rightarrow> init_io \<Rightarrow> nlp_manager \<Rightarrow> logger \<Rightarrow> nlp_manager \<times> logger" where
  "load_training_data e io manager lg =
     (let (thrown, manager) =
            (case (readIntents io, readUtterances io) of
               (Inr intents, Inr utterances) \<Rightarrow>
                 (let entities = (case readEntities io of Inl _ \<Rightarrow> Elements [] | Inr es \<Rightarrow> es)
                  in case intents of
                       NotIterable error \<Rightarrow> (Some error, manager)
                     | Elements intents \<Rightarrow>
                         (case try_each (add_training_intent e utterances) intents manager of
                            (Some error, manager) \<Rightarrow> (Some error, manager)
                          | (None, manager) \<Rightarrow>
                              (case entities of
                                 NotIterable error \<Rightarrow> (Some error, manager)
                               | Elements entities \<Rightarrow>
                                   try_each add_training_entity entities manager)))
             | (Inl error, _) \<Rightarrow> (Some error, manager)
             | (_, Inl error) \<Rightarrow> (Some error, manager))
      in case thrown of
           None \<Rightarrow> (manager, lg @ [LogInfo ''Loaded training data from individual files''])
         | Some error \<Rightarrow>
             (fold (add_default_intent e) intentCategories manager,
              lg @ [LogWarn ''Training files not found or invalid. Using default intents'']))"

text \<open>
  The outer \<open>try\<close>: the four path resolutions, the inner block, training and saving. The
  result is the thrown error or the manager, with the log as it is at that point.
\<close>

definition try_initialize :: "env \<Rightarrow> init_io \<Rightarrow> nlp_manager \<Rightarrow> logger \<Rightarrow> (js_error + nlp_manager) \<times> logger" where
  "try_initialize e io manager lg =
     (case path_resolve ''../training/intents.json'' of
        Inl error \<Rightarrow> (Inl error, lg)
      | Inr intentsPath \<Rightarrow>
     (case path_resolve ''../training/utterances.json'' of
        Inl error \<Rightarrow> (Inl error, lg)
      | Inr utterancesPath \<Rightarrow>
     (case path_resolve ''../training/entities.json'' of
        Inl error \<Rightarrow> (Inl error, lg)
      | Inr entitiesPath \<Rightarrow>
     (case path_resolve (NLP_MODEL_PATH e) of
        Inl error \<Rightarrow> (Inl error, lg)
      | Inr modelPath \<Rightarrow>
          (let (manager, lg) = load_training_data e io manager lg
           in case trainResult io of
                Some error \<Rightarrow> (Inl error, lg)
              | None \<Rightarrow>
                  (let manager = manager\<lparr>trained := True\<rparr>;
                       lg = (case saveResult io of
                               None \<Rightarrow> lg @ [LogInfo ''NLP model trained and saved successfully'']
                             | Some error \<Rightarrow> lg @ [LogError ''Failed to save NLP model:''])
                   in (Inr manager, lg)))))))"

text \<open>
  The function: what the outer \<open>try\<close> throws is logged and thrown again.
\<close>

definition InitializeNlpManager :: "env \<Rightarrow> init_io \<Rightarrow> logger \<Rightarrow> (js_error + nlp_manager) \<times> logger" where
  "InitializeNlpManager e io lg =
     (let manager = createNlpManager
      in case try_initialize e io manager lg of
           (Inl error, lg) \<Rightarrow> (Inl error, lg @ [LogError ''Failed to initialize NLP manager:''])
         | (Inr manager, lg) \<Rightarrow> (Inr manager, lg))"

text \<open>
  Reading a manager: the intents it knows, and the utterances and answers it holds for
  an intent.
\<close>

definition intent_names :: "nlp_manager \<Rightarrow> string list" where
  "intent_names manager = remdups (map (\<lambda>(locale, utterance, intent). intent) (documents manager))"

definition utterances_of :: "nlp_manager \<Rightarrow> string \<Rightarrow> string list" where
  "utterances_of manager name =
     map (\<lambda>(locale, utterance, intent). utterance)
       (filter (\<lambda>(locale, utterance, intent). intent = name) (documents manager))"

definition answers_of :: "nlp_manager \<Rightarrow> string \<Rightarrow> string list" where
  "answers_of manager name =
     map (\<lambda>(locale, intent, answer). answer)
       (filter (\<lambda>(locale, intent, answer). intent = name) (answers manager))"

text \<open>
  A start in which no training file can be read, and training and saving would succeed.
\<close>

definition failing_io :: init_io where
  "failing_io =
     \<lparr>readIntents = Inl (Error ''ENOENT''), readUtterances = Inl (Error ''ENOENT''),
      readEntities = Inl (Error ''ENOENT''), trainResult = None, saveResult = None\<rparr>"


section \<open>Auxiliary predicates\<close>

text \<open>
  A string whose whitespace is normal: every whitespace character is a blank and no two
  of them are adjacent.
\<close>

fun ws_normal :: "string \<Rightarrow> bool" where
  "ws_normal [] = True"
| "ws_normal [c] = (is_space c \<longrightarrow> c = CHR '' '')"
| "ws_normal (c # d # cs) =
     ((is_space c \<longrightarrow> c = CHR '' '' \<and> \<not> is_space d) \<and> ws_normal (d # cs))"

text \<open>
  An entity whose offsets are valid in a text.
\<close>

definition valid_entity :: "string \<Rightarrow> entity \<Rightarrow> bool" where
  "valid_entity text e \<longleftrightarrow>
     0 \<le> ent_start e \<and> ent_start e \<le> ent_end e \<and> ent_end e \<le> int (length text) \<and>
     substring text (nat (ent_start e)) (nat (ent_end e)) = ent_value e"


section \<open>Properties of the retry strategy\<close>

text \<open>
  C10: for every attempt number \<open>n \<ge> 0\<close> the retry strategy returns the minimum of
  \<open>n * 100\<close> and 2000, so the delay never exceeds 2000 ms.
\<close>

theorem retryStrategy_delay:
  "0 \<le> n \<Longrightarrow>
     fst (retryStrategy n lg) = min (n * 100) 2000 \<and> fst (retryStrategy n lg) \<le> 2000"
  by (simp add: retryStrategy_def Let_def)

theorem retryStrategy_delay_witness:
  "fst (retryStrategy 3 []) = 300 \<and> fst (retryStrategy 25 []) = 2000 \<and>
   fst (retryStrategy 25 []) \<le> 2000"
  using retryStrategy_delay [of 3 "[]"] retryStrategy_delay [of 25 "[]"] by simp


section \<open>Properties of the sentiment label\<close>

text \<open>
  C6 as stated fails for a negative threshold, which the environment schema accepts
  (\<open>z.coerce.number()\<close>): the test for positive comes first, so with threshold -1 and
  score 0 the label is positive although the score is below the negated threshold.
\<close>

theorem analyzeSentiment_negative_threshold:
  "label (analyzeSentiment
     (\<lambda>t. \<lparr>score = 0, comparative = 0, tokens = [t], positive = [], negative = []\<rparr>)
     (default_env\<lparr>NLP_SENTIMENT_THRESHOLD := - 1\<rparr>) ''table'') = ''positive'' \<and>
   score (analyzeSentiment
     (\<lambda>t. \<lparr>score = 0, comparative = 0, tokens = [t], positive = [], negative = []\<rparr>)
     (default_env\<lparr>NLP_SENTIMENT_THRESHOLD := - 1\<rparr>) ''table'')
     < - NLP_SENTIMENT_THRESHOLD (default_env\<lparr>NLP_SENTIMENT_THRESHOLD := - 1\<rparr>)"
  by (simp add: default_env_def analyzeSentiment_def)

text \<open>
  C6, amended: for every text and every threshold, the label is positive exactly when the
  score exceeds the threshold, negative exactly when the score does not exceed the
  threshold and is below the negated threshold, and neutral otherwise. When the threshold
  is not negative, the label is negative exactly when the score is below the negated
  threshold, as the claim says.
\<close>

theorem analyzeSentiment_label:
  "(label (analyzeSentiment analyze e text) = ''positive''
      \<longleftrightarrow> score (analyzeSentiment analyze e text) > NLP_SENTIMENT_THRESHOLD e) \<and>
   (label (analyzeSentiment analyze e text) = ''negative''
      \<longleftrightarrow> \<not> score (analyzeSentiment analyze e text) > NLP_SENTIMENT_THRESHOLD e \<and>
          score (analyzeSentiment analyze e text) < - NLP_SENTIMENT_THRESHOLD e) \<and>
   (label (analyzeSentiment analyze e text) = ''neutral''
      \<longleftrightarrow> \<not> score (analyzeSentiment analyze e text) > NLP_SENTIMENT_THRESHOLD e \<and>
          \<not> score (analyzeSentiment analyze e text) < - NLP_SENTIMENT_THRESHOLD e) \<and>
   (0 \<le> NLP_SENTIMENT_THRESHOLD e \<longrightarrow>
      (label (analyzeSentiment analyze e text) = ''negative''
         \<longleftrightarrow> score (analyzeSentiment analyze e text) < - NLP_SENTIMENT_THRESHOLD e))"
  by (auto simp: analyzeSentiment_def Let_def)

theorem analyzeSentiment_label_witness:
  "0 \<le> NLP_SENTIMENT_THRESHOLD default_env \<and>
   label (analyzeSentiment
     (\<lambda>t. \<lparr>score = 3, comparative = 1, tokens = [t], positive = [t], negative = []\<rparr>)
     default_env ''good'') = ''positive'' \<and>
   label (analyzeSentiment
     (\<lambda>t. \<lparr>score = - 3, comparative = - 1, tokens = [t], positive = [], negative = [t]\<rparr>)
     default_env ''bad'') = ''negative'' \<and>
   label (analyzeSentiment
     (\<lambda>t. \<lparr>score = 0, comparative = 0, tokens = [t], positive = [], negative = []\<rparr>)
     default_env ''table'') = ''neutral'' \<and>
   label (analyzeSentiment
     (\<lambda>t. \<lparr>score = - 3, comparative = - 1, tokens = [t], positive = [], negative = [t]\<rparr>)
     (default_env\<lparr>NLP_SENTIMENT_THRESHOLD := - 1\<rparr>) ''bad'') = ''negative''"
  using
    analyzeSentiment_label [of
      "\<lambda>t. \<lparr>score = 3, comparative = 1, tokens = [t], positive = [t], negative = []\<rparr>"
      default_env "''good''"]
    analyzeSentiment_label [of
      "\<lambda>t. \<lparr>score = - 3, comparative = - 1, tokens = [t], positive = [], negative = [t]\<rparr>"
      default_env "''bad''"]
    analyzeSentiment_label [of
      "\<lambda>t. \<lparr>score = 0, comparative = 0, tokens = [t], positive = [], negative = []\<rparr>"
      default_env "''table''"]
    analyzeSentiment_label [of
      "\<lambda>t. \<lparr>score = - 3, comparative = - 1, tokens = [t], positive = [], negative = [t]\<rparr>"
      "default_env\<lparr>NLP_SENTIMENT_THRESHOLD := - 1\<rparr>" "''bad''"]
  by (simp add: default_env_def analyzeSentiment_def)


section \<open>Properties of the text normalizer\<close>

text \<open>
  C3: every character of the normalizer's output is a word character, whitespace, or one
  of the punctuation characters \<open>. , ! ? ' -\<close>.
\<close>

theorem preprocessText_allow_list:
  "\<forall>c \<in> set (preprocessText x). allowed_char c"
  by (simp add: preprocessText_def strip_special_def Let_def)

theorem preprocessText_allow_list_witness:
  "preprocessText ''  Hello,   WORLD! #1 '' = ''hello, world! 1'' \<and>
   list_all allowed_char (preprocessText ''  Hello,   WORLD! #1 '')"
proof -
  have "preprocessText ''  Hello,   WORLD! #1 '' = ''hello, world! 1''"
    by code_simp
  moreover have "list_all allowed_char (preprocessText ''  Hello,   WORLD! #1 '')"
    using preprocessText_allow_list [of "''  Hello,   WORLD! #1 ''"]
    by (simp add: list_all_iff)
  ultimately show ?thesis by simp
qed

text \<open>
  C2: the normalizer is to be idempotent. The code collapses and trims the whitespace
  (\<open>// Remove extra whitespace\<close>) before it removes the characters outside the
  allow-list, so removing a character that stands between two blanks leaves two adjacent
  blanks in the result, and removing one at the start or the end leaves a blank there; a
  second pass removes them. On \<open>a @ b\<close> the first pass gives \<open>a  b\<close> with two blanks and
  the second \<open>a b\<close>; on \<open>@ a\<close> the first pass gives \<open>a\<close> after a blank and the second \<open>a\<close>.
\<close>

theorem preprocessText_not_idempotent:
  "preprocessText ''a @ b'' = ''a  b'' \<and>
   preprocessText (preprocessText ''a @ b'') = ''a b'' \<and>
   preprocessText (preprocessText ''a @ b'') \<noteq> preprocessText ''a @ b'' \<and>
   preprocessText ''@ a'' = '' a'' \<and>
   preprocessText (preprocessText ''@ a'') = ''a''"
  by code_simp

lemma allowed_lower: "allowed_char c \<Longrightarrow> allowed_char (toLowerCase_char c)"
  unfolding allowed_char_def toLowerCase_char_def is_word_def is_space_def is_digit_def code_unit_def Let_def
  by auto

lemma lower_idem: "toLowerCase_char (toLowerCase_char c) = toLowerCase_char c"
  unfolding toLowerCase_char_def code_unit_def Let_def by auto

lemma is_space_blank: "is_space (CHR '' '')"
  by (simp add: is_space_def code_unit_def)

lemma allowed_blank: "allowed_char (CHR '' '')"
  by (simp add: allowed_char_def is_space_blank)

lemma lower_blank: "toLowerCase_char (CHR '' '') = CHR '' ''"
  by (simp add: toLowerCase_char_def code_unit_def)

text \<open>A property of characters that the blank has is kept by collapsing and trimming.\<close>

lemma collapse_whitespace_all:
  "P (CHR '' '') \<Longrightarrow> list_all P s \<Longrightarrow> list_all P (collapse_whitespace s)"
proof (induction s rule: collapse_whitespace.induct)
  case 1
  then show ?case by simp
next
  case (2 c cs)
  have "list_all P (dropWhile is_space cs)"
    using 2(4) set_dropWhileD by (fastforce simp: list_all_iff)
  with 2 show ?case by simp
qed

lemma trim_all: "list_all P s \<Longrightarrow> list_all P (trim s)"
  unfolding trim_def list_all_iff
  by (metis set_dropWhileD set_rev)

lemma ws_normal_Cons:
  "ws_normal (c # s) \<longleftrightarrow>
     (is_space c \<longrightarrow> c = CHR '' '' \<and> (s \<noteq> [] \<longrightarrow> \<not> is_space (hd s))) \<and> ws_normal s"
  by (cases s) auto

lemma hd_collapse:
  "s \<noteq> [] \<Longrightarrow> \<not> is_space (hd s) \<Longrightarrow> collapse_whitespace s \<noteq> [] \<and> hd (collapse_whitespace s) = hd s"
  by (cases s) auto

lemma ws_normal_collapse: "ws_normal (collapse_whitespace s)"
proof (induction s rule: collapse_whitespace.induct)
  case 1
  then show ?case by simp
next
  case (2 c cs)
  show ?case
  proof (cases "is_space c")
    case True
    let ?r = "dropWhile is_space cs"
    have "?r \<noteq> [] \<Longrightarrow> \<not> is_space (hd ?r)" by (rule hd_dropWhile)
    then have "collapse_whitespace ?r \<noteq> [] \<Longrightarrow> \<not> is_space (hd (collapse_whitespace ?r))"
      using hd_collapse [of ?r] by (cases ?r) auto
    with True 2 show ?thesis by (simp add: ws_normal_Cons)
  next
    case False
    with 2 show ?thesis by (simp add: ws_normal_Cons)
  qed
qed

lemma collapse_ws_normal: "ws_normal s \<Longrightarrow> collapse_whitespace s = s"
proof (induction s rule: ws_normal.induct)
  case 1
  then show ?case by simp
next
  case (2 c)
  then show ?case by simp
next
  case (3 c d cs)
  then show ?case by auto
qed

lemma ws_normal_append:
  "ws_normal (xs @ ys) \<longleftrightarrow>
     ws_normal xs \<and> ws_normal ys \<and>
     (xs \<noteq> [] \<and> ys \<noteq> [] \<longrightarrow> \<not> (is_space (last xs) \<and> is_space (hd ys)))"
proof (induction xs)
  case Nil
  then show ?case by simp
next
  case (Cons a xs)
  then show ?case by (cases xs; cases ys) (auto simp: ws_normal_Cons)
qed

lemma ws_normal_rev: "ws_normal s \<Longrightarrow> ws_normal (rev s)"
proof (induction s)
  case Nil
  then show ?case by simp
next
  case (Cons a s)
  then show ?case
    by (cases s) (auto simp: ws_normal_append ws_normal_Cons hd_rev last_rev)
qed

lemma ws_normal_dropWhile: "ws_normal s \<Longrightarrow> ws_normal (dropWhile P s)"
  by (induction s) (auto simp: ws_normal_Cons)

lemma ws_normal_trim: "ws_normal s \<Longrightarrow> ws_normal (trim s)"
  unfolding trim_def by (intro ws_normal_rev ws_normal_dropWhile)

lemma trim_idem: "trim (trim s) = trim s"
proof -
  define t where "t = dropWhile is_space s"
  define u where "u = rev (dropWhile is_space (rev t))"
  have t: "t \<noteq> [] \<Longrightarrow> \<not> is_space (hd t)"
    unfolding t_def by (rule hd_dropWhile)
  have "rev t = takeWhile is_space (rev t) @ dropWhile is_space (rev t)" by simp
  then have "t = u @ rev (takeWhile is_space (rev t))"
    unfolding u_def by (metis rev_append rev_rev_ident)
  then have "u \<noteq> [] \<Longrightarrow> hd u = hd t" by (metis hd_append2)
  moreover have "u \<noteq> [] \<Longrightarrow> t \<noteq> []" unfolding u_def by auto
  ultimately have "u \<noteq> [] \<Longrightarrow> \<not> is_space (hd u)" using t by simp
  then have "dropWhile is_space u = u" by (cases u) auto
  moreover have "rev (dropWhile is_space (rev u)) = u"
    unfolding u_def by (simp add: dropWhile_idem)
  ultimately show ?thesis unfolding trim_def t_def [symmetric] u_def [symmetric] by simp
qed

lemma strip_special_id: "list_all allowed_char s \<Longrightarrow> strip_special s = s"
  by (simp add: strip_special_def list_all_iff)

text \<open>
  Where nothing is removed the defect does not show: on an input in which all characters
  are allow-listed a second pass of the normalizer changes nothing.
\<close>

lemma preprocessText_idempotent_on_allowed:
  assumes "list_all allowed_char x"
  shows "preprocessText (preprocessText x) = preprocessText x"
proof -
  define y where "y = trim (collapse_whitespace (toLowerCase x))"
  have "list_all allowed_char (toLowerCase x)"
    using assms by (simp add: toLowerCase_def list_all_iff allowed_lower)
  then have ay: "list_all allowed_char y"
    unfolding y_def by (intro trim_all collapse_whitespace_all allowed_blank)
  then have px: "preprocessText x = y"
    by (simp add: preprocessText_def y_def [symmetric] strip_special_id)
  have "list_all (\<lambda>c. toLowerCase_char c = c) (toLowerCase x)"
    by (simp add: toLowerCase_def list_all_iff lower_idem)
  then have "list_all (\<lambda>c. toLowerCase_char c = c) y"
    unfolding y_def by (intro trim_all collapse_whitespace_all lower_blank)
  then have ly: "toLowerCase y = y"
    by (simp add: toLowerCase_def list_all_iff map_idI)
  have "ws_normal y"
    unfolding y_def by (intro ws_normal_trim ws_normal_collapse)
  then have cy: "collapse_whitespace y = y" by (rule collapse_ws_normal)
  have ty: "trim y = y" unfolding y_def by (rule trim_idem)
  have "preprocessText y = y"
    by (simp add: preprocessText_def ly cy ty strip_special_id ay)
  with px show ?thesis by simp
qed


section \<open>Properties of matching\<close>

lemma substring_simple:
  "i \<le> e \<Longrightarrow> e \<le> length s \<Longrightarrow> substring s i e = take (e - i) (drop i s)"
  by (simp add: substring_def Let_def min_def max_def)

lemma regexp_exec_Some:
  "regexp_exec rx S = (Some (i, e), rx') \<Longrightarrow>
     lastIndex rx \<le> i \<and> i \<le> e \<and> e \<le> length S \<and> rx' = rx\<lparr>lastIndex := e\<rparr>"
  using search_bounds [of "ignoreCase rx" "source rx" S "lastIndex rx" i e]
  by (auto simp: regexp_exec_def split: option.splits)

lemma regexp_exec_None:
  "regexp_exec rx S = (None, rx') \<Longrightarrow> rx' = rx\<lparr>lastIndex := 0\<rparr>"
  by (auto simp: regexp_exec_def split: option.splits)

lemma match_loop_substrings:
  "m \<in> set (fst (match_loop rx S)) \<Longrightarrow>
     \<exists>i e. i \<le> e \<and> e \<le> length S \<and> m = substring S i e"
proof (induction rx S rule: match_loop.induct)
  case (1 rx S)
  obtain res rx' where ex: "regexp_exec rx S = (res, rx')" by (cases "regexp_exec rx S")
  show ?case
  proof (cases res)
    case None
    with ex 1(2) show ?thesis by (subst (asm) match_loop.simps) simp
  next
    case (Some p)
    obtain i e where p: "p = (i, e)" by (cases p)
    define matchStr where "matchStr = substring S i e"
    define rx'' where "rx'' = (if matchStr = [] then rx'\<lparr>lastIndex := lastIndex rx' + 1\<rparr> else rx')"
    have unfold: "fst (match_loop rx S) = matchStr # fst (match_loop rx'' S)"
      by (subst match_loop.simps)
         (simp add: ex Some p Let_def matchStr_def rx''_def split: prod.splits)
    from ex Some p have b: "i \<le> e" "e \<le> length S"
      using regexp_exec_Some [of rx S i e rx'] by auto
    show ?thesis
    proof (cases "m = matchStr")
      case True
      with b show ?thesis unfolding matchStr_def by blast
    next
      case False
      with 1(2) unfold have "m \<in> set (fst (match_loop rx'' S))" by simp
      then show ?thesis
        by (rule 1(1) [OF ex [symmetric] Some p [symmetric] matchStr_def rx''_def])
    qed
  qed
qed

lemma match_loop_final:
  "snd (match_loop rx S) = rx\<lparr>lastIndex := 0\<rparr>"
proof (induction rx S rule: match_loop.induct)
  case (1 rx S)
  obtain res rx' where ex: "regexp_exec rx S = (res, rx')" by (cases "regexp_exec rx S")
  show ?case
  proof (cases res)
    case None
    with ex regexp_exec_None [of rx S rx'] show ?thesis
      by (subst match_loop.simps) simp
  next
    case (Some p)
    obtain i e where p: "p = (i, e)" by (cases p)
    define matchStr where "matchStr = substring S i e"
    define rx'' where "rx'' = (if matchStr = [] then rx'\<lparr>lastIndex := lastIndex rx' + 1\<rparr> else rx')"
    have unfold: "snd (match_loop rx S) = snd (match_loop rx'' S)"
      by (subst match_loop.simps)
         (simp add: ex Some p Let_def matchStr_def rx''_def split: prod.splits)
    from ex Some p have "rx' = rx\<lparr>lastIndex := e\<rparr>"
      using regexp_exec_Some [of rx S i e rx'] by auto
    then have "rx''\<lparr>lastIndex := 0\<rparr> = rx\<lparr>lastIndex := 0\<rparr>"
      by (simp add: rx''_def)
    with unfold 1(1) [OF ex [symmetric] Some p [symmetric] matchStr_def rx''_def]
    show ?thesis by simp
  qed
qed

lemma string_match_final: "snd (string_match S rx) = rx\<lparr>lastIndex := 0\<rparr>"
  using match_loop_final [of "rx\<lparr>lastIndex := 0\<rparr>" S]
  by (auto simp: string_match_def split: prod.splits)

lemma string_match_lastIndex:
  "fst (string_match S (rx\<lparr>lastIndex := k\<rparr>)) = fst (string_match S rx)"
  by (simp add: string_match_def)

lemma string_match_substrings:
  "fst (string_match S rx) = Some ms \<Longrightarrow> m \<in> set ms \<Longrightarrow>
     \<exists>i e. i \<le> e \<and> e \<le> length S \<and> m = substring S i e"
  using match_loop_substrings [of m "rx\<lparr>lastIndex := 0\<rparr>" S]
  by (auto simp: string_match_def split: prod.splits if_splits)

lemma indexOf_substring:
  assumes "i \<le> e" "e \<le> length s"
  shows "0 \<le> indexOf s (substring s i e) \<and>
         indexOf s (substring s i e) \<le> int i \<and>
         indexOf s (substring s i e) + int (length (substring s i e)) \<le> int (length s) \<and>
         substring s (nat (indexOf s (substring s i e)))
           (nat (indexOf s (substring s i e) + int (length (substring s i e)))) = substring s i e"
proof -
  define m where "m = substring s i e"
  have m: "m = take (e - i) (drop i s)" "length m = e - i"
    using assms by (simp_all add: m_def substring_simple)
  let ?P = "\<lambda>k. take (length m) (drop k s) = m"
  let ?ks = "[0 ..< Suc (length s - length m)]"
  have "?P i" using m by simp
  moreover have "i \<in> set ?ks" using assms m by (auto simp del: upt_Suc)
  ultimately have "find ?P ?ks \<noteq> None" by (auto simp: find_None_iff simp del: upt_Suc)
  then obtain k where k: "find ?P ?ks = Some k" by auto
  then obtain n where n: "n < length ?ks" "?P (?ks ! n)" "k = ?ks ! n" "\<forall>j<n. \<not> ?P (?ks ! j)"
    unfolding find_Some_iff by blast
  from n(1,3) have nk: "n = k" and kin: "k \<le> length s - length m"
    by (simp_all add: nth_upt del: upt_Suc)
  from n(2,3) have kP: "?P k" by simp
  have kle: "k \<le> i"
  proof (rule ccontr)
    assume "\<not> k \<le> i"
    then have "i < n" using nk by simp
    with n(4) have "\<not> ?P (?ks ! i)" by blast
    moreover have "?ks ! i = i" using \<open>i < n\<close> n(1) by (simp add: nth_upt del: upt_Suc)
    ultimately show False using \<open>?P i\<close> by simp
  qed
  have idx: "indexOf s m = int k" using k by (simp add: indexOf_def)
  have klen: "k + length m \<le> length s" using kin m assms by auto
  have "substring s k (k + length m) = m"
    using klen kP by (simp add: substring_simple)
  with idx kle klen show ?thesis
    unfolding m_def [symmetric] by (simp add: nat_add_distrib)
qed


section \<open>Properties of entity extraction\<close>

lemma extract_from_valid:
  "list_all (valid_entity t) entities \<Longrightarrow>
     list_all (valid_entity t) (fst (extract_from table t entities))"
proof (induction table t entities rule: extract_from.induct)
  case (1 t entities)
  then show ?case by simp
next
  case (2 entityType entityConfig rest t entities)
  obtain matches rx where sm: "string_match t (regex entityConfig) = (matches, rx)"
    by (cases "string_match t (regex entityConfig)")
  define entities' where "entities' =
     (case matches of None \<Rightarrow> entities
      | Some ms \<Rightarrow> entities @ map (\<lambda>m. \<lparr>ent_type = entityType, ent_value = m,
                                  ent_start = indexOf t m,
                                  ent_end = indexOf t m + int (length m)\<rparr>) ms)"
  have "list_all (valid_entity t) entities'"
  proof (cases matches)
    case None
    with 2(2) show ?thesis by (simp add: entities'_def)
  next
    case (Some ms)
    have "valid_entity t \<lparr>ent_type = entityType, ent_value = m,
                                  ent_start = indexOf t m,
                                  ent_end = indexOf t m + int (length m)\<rparr>"
      if "m \<in> set ms" for m
    proof -
      from string_match_substrings [of t "regex entityConfig" ms m] sm Some that
      obtain i e where ie: "i \<le> e" "e \<le> length t" "m = substring t i e" by auto
      from indexOf_substring [OF ie(1,2)] show ?thesis
        unfolding ie(3) [symmetric] by (simp add: valid_entity_def)
    qed
    with 2(2) Some show ?thesis by (auto simp: entities'_def list_all_iff)
  qed
  from 2(1) [OF refl sm [symmetric] entities'_def this]
  show ?case by (auto simp: sm entities'_def split: prod.splits)
qed

text \<open>
  C9: every entity returned by \<open>extractentities\<close> on a text has valid offsets into the
  text: \<open>0 \<le> start \<le> end \<le> length\<close>, and the substring from \<open>start\<close> to \<open>end\<close> is the
  entity's value.
\<close>

theorem extractentities_offsets_valid:
  "e \<in> set (fst (extractentities table t)) \<Longrightarrow>
     0 \<le> ent_start e \<and> ent_start e \<le> ent_end e \<and> ent_end e \<le> int (length t) \<and>
     substring t (nat (ent_start e)) (nat (ent_end e)) = ent_value e"
  using extract_from_valid [of t "[]" table]
  by (simp add: extractentities_def list_all_iff valid_entity_def)

theorem extractentities_offsets_valid_witness:
  "\<lparr>ent_type = ''number'', ent_value = ''5'', ent_start = 1, ent_end = 2\<rparr>
     \<in> set (fst (extractentities entityTypes ''15 5'')) \<and>
   substring ''15 5'' 1 2 = ''5''"
proof -
  have h: "\<lparr>ent_type = ''number'', ent_value = ''5'', ent_start = 1, ent_end = 2\<rparr>
     \<in> set (fst (extractentities entityTypes ''15 5''))"
    by code_simp
  from extractentities_offsets_valid [OF h] h show ?thesis by simp
qed

lemma extract_from_lastIndex:
  "fst (extract_from (with_lastIndex f table) t ents) = fst (extract_from table t ents)"
proof (induction table arbitrary: ents)
  case Nil
  then show ?case by (simp add: with_lastIndex_def)
next
  case (Cons a table)
  obtain n c where a: "a = (n, c)" by (cases a)
  have w: "with_lastIndex f ((n, c) # table) =
      (n, c\<lparr>regex := (regex c)\<lparr>lastIndex := f n\<rparr>\<rparr>) # with_lastIndex f table"
    by (simp add: with_lastIndex_def)
  show ?case
    unfolding a w using Cons.IH
    by (simp add: split_beta Let_def string_match_lastIndex)
qed

lemma extract_from_final:
  "snd (extract_from table t ents) = with_lastIndex (\<lambda>_. 0) table"
proof (induction table arbitrary: ents)
  case Nil
  then show ?case by (simp add: with_lastIndex_def)
next
  case (Cons a table)
  obtain n c where a: "a = (n, c)" by (cases a)
  have w: "with_lastIndex (\<lambda>_. 0) ((n, c) # table) =
      (n, c\<lparr>regex := (regex c)\<lparr>lastIndex := 0\<rparr>\<rparr>) # with_lastIndex (\<lambda>_. 0) table"
    by (simp add: with_lastIndex_def)
  show ?case
    unfolding a w using Cons.IH
    by (simp add: split_beta Let_def string_match_final)
qed

lemma entityTypes_fresh: "with_lastIndex (\<lambda>_. 0) entityTypes = entityTypes"
  by (simp add: with_lastIndex_def entityTypes_def)

lemma with_lastIndex_twice: "with_lastIndex g (with_lastIndex f table) = with_lastIndex g table"
  by (induction table) (auto simp: with_lastIndex_def)

text \<open>
  C5: entity extraction is deterministic. Whatever values the \<open>lastIndex\<close> fields of the
  built-in table hold when a run starts, two runs on the same text return the same entity
  list, offsets included; a run leaves the table in its initial state, and a second run
  that follows it returns the same list again.
\<close>

theorem extractentities_deterministic:
  "fst (extractentities (with_lastIndex f entityTypes) t) =
     fst (extractentities (with_lastIndex g entityTypes) t) \<and>
   snd (extractentities (with_lastIndex f entityTypes) t) = entityTypes \<and>
   fst (extractentities (snd (extractentities (with_lastIndex f entityTypes) t)) t) =
     fst (extractentities (with_lastIndex f entityTypes) t)"
  by (simp add: extractentities_def extract_from_lastIndex extract_from_final
      with_lastIndex_twice entityTypes_fresh)

theorem extractentities_deterministic_witness:
  "fst (extractentities (with_lastIndex (\<lambda>_. 7) entityTypes) ''5 5'') =
     fst (extractentities (with_lastIndex (\<lambda>_. 0) entityTypes) ''5 5'')"
  using extractentities_deterministic [of "\<lambda>_. 7" "''5 5''" "\<lambda>_. 0"] by simp

text \<open>
  C1 as stated fails: the normalizer removes the character \<open>@\<close>, which is not on its
  allow-list, so the normalized text holds no e-mail address and extraction over it finds
  no entity at all.
\<close>

theorem pipeline_email_lost:
  "preprocessText ''My email is john@example.com'' = ''my email is johnexample.com'' \<and>
   fst (extractentities entityTypes (preprocessText ''My email is john@example.com'')) = []"
  by code_simp

text \<open>
  C1, amended: extraction over the raw text \<open>My email is john@example.com\<close> yields
  exactly the entity of type \<open>email\<close> with value \<open>john@example.com\<close>, start 12 and end 28,
  which is the span of the value in that text.
\<close>

theorem extractentities_email_raw:
  "fst (extractentities entityTypes ''My email is john@example.com'') =
     [\<lparr>ent_type = ''email'', ent_value = ''john@example.com'', ent_start = 12, ent_end = 28\<rparr>] \<and>
   substring ''My email is john@example.com'' 12 28 = ''john@example.com''"
  by code_simp

text \<open>
  C4: the extractor appends one entity per match, but the offsets are computed with
  \<open>indexOf\<close>, which finds the first occurrence of the matched string. In \<open>5 5\<close> the number
  pattern matches at 0 to 1 and at 2 to 3; both entities carry the span 0 to 1. In
  \<open>15 5\<close> the second match is at 3 to 4, and its entity carries 1 to 2, inside the first
  match.
\<close>

theorem extractentities_repeated_value:
  "search False number_regex ''5 5'' 0 = Some (0, 1) \<and>
   search False number_regex ''5 5'' 1 = Some (2, 3) \<and>
   fst (extractentities entityTypes ''5 5'') =
     [\<lparr>ent_type = ''number'', ent_value = ''5'', ent_start = 0, ent_end = 1\<rparr>,
      \<lparr>ent_type = ''number'', ent_value = ''5'', ent_start = 0, ent_end = 1\<rparr>] \<and>
   search False number_regex ''15 5'' 2 = Some (3, 4) \<and>
   fst (extractentities entityTypes ''15 5'') =
     [\<lparr>ent_type = ''number'', ent_value = ''15'', ent_start = 0, ent_end = 2\<rparr>,
      \<lparr>ent_type = ''number'', ent_value = ''5'', ent_start = 1, ent_end = 2\<rparr>]"
  by code_simp


section \<open>Properties of classifier initialization\<close>

text \<open>
  The inner block on its own: when the intents file or the utterances file is rejected,
  it adds the built-in intents to the manager it was given and logs the warning. The
  built-in intents are \<open>greeting\<close>, \<open>goodbye\<close>, \<open>help\<close>, \<open>question\<close>, \<open>compliment\<close> and
  \<open>complaint\<close>, each with its patterns and responses; there is no intent \<open>fallback\<close>
  among them.
\<close>

lemma load_training_data_rejected:
  assumes "isl (readIntents io) \<or> isl (readUtterances io)"
  shows "load_training_data e io manager lg =
     (fold (add_default_intent e) intentCategories manager,
      lg @ [LogWarn ''Training files not found or invalid. Using default intents''])"
  using assms
  by (auto simp: load_training_data_def Let_def isl_def split: sum.splits)

lemma default_documents:
  "documents (fold (add_default_intent e) intentCategories createNlpManager) =
     concat (map (\<lambda>(n, c). map (\<lambda>p. (NLP_LANGUAGE e, p, n)) (patterns c)) intentCategories)"
  by (simp add: intentCategories_def add_default_intent_def createNlpManager_def addDocument_def addAnswer_def)

lemma default_answers:
  "answers (fold (add_default_intent e) intentCategories createNlpManager) =
     concat (map (\<lambda>(n, c). map (\<lambda>r. (NLP_LANGUAGE e, n, r)) (responses c)) intentCategories)"
  by (simp add: intentCategories_def add_default_intent_def createNlpManager_def addDocument_def addAnswer_def)

lemma default_intent_names:
  "intent_names (fold (add_default_intent e) intentCategories createNlpManager) =
     [''greeting'', ''goodbye'', ''help'', ''question'', ''compliment'', ''complaint'']"
  by (simp add: intent_names_def default_documents) (simp add: intentCategories_def)

lemma default_utterances_answers:
  "list_all (\<lambda>(name, data).
       utterances_of (fold (add_default_intent e) intentCategories createNlpManager) name = patterns data \<and>
       answers_of (fold (add_default_intent e) intentCategories createNlpManager) name = responses data)
     intentCategories"
  by (simp add: utterances_of_def answers_of_def default_documents default_answers)
     (simp add: intentCategories_def)

text \<open>
  C8: the claim is that a failure to load the training files does not fail
  initialization, which then trains on the built-in intents. The code does not get that
  far: the first statement of the outer \<open>try\<close> evaluates \<open>path\<close>, which the module never
  binds, so every call throws a \<open>ReferenceError\<close>; the outer \<open>catch\<close> logs it and throws it
  again. No file is read, no intent is added and the model is not trained, whatever the
  files hold and whether or not training would succeed.
\<close>

theorem InitializeNlpManager_throws:
  "InitializeNlpManager e io lg =
     (Inl (ReferenceError ''path is not defined''),
      lg @ [LogError ''Failed to initialize NLP manager:'']) \<and>
   InitializeNlpManager default_env failing_io [] =
     (Inl (ReferenceError ''path is not defined''),
      [LogError ''Failed to initialize NLP manager:''])"
  by (simp add: InitializeNlpManager_def try_initialize_def path_resolve_def)

end
